theory Spec2Isabelle
  imports Main
begin

section \<open>JavaScript values\<close>

text \<open>
  Everything that crosses the host's message bus is a JSON-like JavaScript value. Numbers
  are the integers the code uses (tab and frame identifiers); an object is the list of its
  own properties in insertion order.
\<close>

datatype jsval =
    JUndefined
  | JNull
  | JBool bool
  | JNum int
  | JStr string
  | JArr "jsval list"
  | JObj "(string \<times> jsval) list"

text \<open>
  \<open>get_prop v k\<close> is the property read \<open>v[k]\<close> and \<open>has_prop k v\<close> is \<open>k in v\<close>. The keys
  the program reads are never index or built-in properties, so an array has none of them;
  a primitive has none either. (JavaScript raises a TypeError for a property read on
  \<open>undefined\<close> or \<open>null\<close> and for \<open>in\<close> on a primitive; the signatures of the program
  exclude these operands, and the theorems below that depend on it assume an object.)
\<close>

fun get_prop :: "jsval \<Rightarrow> string \<Rightarrow> jsval" where
  "get_prop (JObj kvs) k = (case map_of kvs k of Some v \<Rightarrow> v | None \<Rightarrow> JUndefined)"
| "get_prop _ k = JUndefined"

fun has_prop :: "string \<Rightarrow> jsval \<Rightarrow> bool" where
  "has_prop k (JObj kvs) = (map_of kvs k \<noteq> None)"
| "has_prop k _ = False"

text \<open>JavaScript's truthiness, as tested by \<open>if (x)\<close> and \<open>!x\<close>.\<close>

fun truthy :: "jsval \<Rightarrow> bool" where
  "truthy JUndefined = False"
| "truthy JNull = False"
| "truthy (JBool b) = b"
| "truthy (JNum n) = (n \<noteq> 0)"
| "truthy (JStr s) = (s \<noteq> [])"
| "truthy (JArr _) = True"
| "truthy (JObj _) = True"

fun is_string :: "jsval \<Rightarrow> bool" where
  "is_string (JStr _) = True"
| "is_string _ = False"

fun isArray :: "jsval \<Rightarrow> bool" where
  "isArray (JArr _) = True"
| "isArray _ = False"

fun is_number :: "jsval \<Rightarrow> bool" where
  "is_number (JNum _) = True"
| "is_number _ = False"

fun num_of :: "jsval \<Rightarrow> int" where
  "num_of (JNum n) = n"
| "num_of _ = 0"

fun str_of :: "jsval \<Rightarrow> string" where
  "str_of (JStr s) = s"
| "str_of _ = []"

fun elems_of :: "jsval \<Rightarrow> jsval list" where
  "elems_of (JArr xs) = xs"
| "elems_of _ = []"

definition startsWith :: "string \<Rightarrow> string \<Rightarrow> bool" where
  "startsWith s p = (take (length p) s = p)"

section \<open>Errors, promises and results\<close>

text \<open>
  \<open>MessengerError\<close> is the program's own subclass of \<open>Error\<close>; \<open>error instanceof
  MessengerError\<close> is the test for the first constructor, \<open>error.message\<close> is \<open>err_message\<close>.
\<close>

datatype err = MessengerError string | Error string

fun err_message :: "err \<Rightarrow> string" where
  "err_message (MessengerError m) = m"
| "err_message (Error m) = m"

fun instanceof_MessengerError :: "err \<Rightarrow> bool" where
  "instanceof_MessengerError (MessengerError _) = True"
| "instanceof_MessengerError (Error _) = False"

text \<open>
  A promise is represented by the way it settles. A call returns a plain value
  (\<open>undefined\<close> for \<open>void\<close>) or a promise, or it throws synchronously (\<open>Inl\<close>).
\<close>

datatype settled = Rejected err | Fulfilled jsval

datatype returned = Plain jsval | Promise settled

type_synonym result = "err + returned"

text \<open>\<open>async () => f()\<close>: a throw becomes a rejection, a returned promise is adopted.\<close>

fun async_call :: "result \<Rightarrow> settled" where
  "async_call (Inl e) = Rejected e"
| "async_call (Inr (Plain v)) = Fulfilled v"
| "async_call (Inr (Promise s)) = s"

record meta =
  trace :: "jsval list"

type_synonym handler = "meta \<Rightarrow> jsval list \<Rightarrow> result"

type_synonym registry = "string \<rightharpoonup> handler"

section \<open>The host\<close>

text \<open>
  The collaborators of the program: the browser's message bus, the tab query, the page
  detection and the libraries for JSON and error serialization. The bus and the tab query
  change over time, so they take the number of the delivery attempt during which they are
  asked. \<open>retries\<close> is the number of retries that the retry library grants before its time
  ceiling (\<open>maxRetryTime: 4000\<close>) is reached.
\<close>

record env =
  browser_defined :: bool
  browser_tabs :: bool
  isBackground :: bool
  runtime_sendMessage :: "nat \<Rightarrow> jsval \<Rightarrow> settled"
  tabs_sendMessage :: "nat \<Rightarrow> jsval \<Rightarrow> jsval \<Rightarrow> jsval \<Rightarrow> settled"
  doesTabExist :: "nat \<Rightarrow> int \<Rightarrow> bool"
  JSON_stringify :: "jsval \<Rightarrow> string"
  serializeError :: "err \<Rightarrow> jsval"
  deserializeError :: "jsval \<Rightarrow> err"
  retries :: nat

section \<open>The sender\<close>

text \<open>
  The calls that only write to the log (\<open>debug\<close>, \<open>warn\<close>, \<open>console.debug\<close>,
  \<open>console.warn\<close>) do not change what a function returns or throws and are left out.
\<close>

definition errorNonExistingTarget :: string where
  "errorNonExistingTarget = ''Could not establish connection. Receiving end does not exist.''"

definition errorTargetClosedEarly_host :: string where
  "errorTargetClosedEarly_host =
     ''A listener indicated an asynchronous response by returning true, but the message channel closed before a response was received''"

definition errorTargetClosedEarly :: string where
  "errorTargetClosedEarly = ''The target was closed before receiving a response''"

definition errorTabDoesntExist :: string where
  "errorTabDoesntExist = ''The tab doesn't exist''"

text \<open>
  Modelled from the spec: \<open>isObject\<close> and the tag constants \<open>__webextMessenger\<close> and
  \<open>__webext_messenger__\<close> are imported from \<open>shared.js\<close>, which is not part of the sources.
  The wire envelope and the wire response are objects that carry \<open>protocolTag: true\<close>, so
  both constants are \<open>true\<close>, and \<open>isObject\<close> holds of the values whose \<open>typeof\<close> is
  \<open>"object"\<close> and that are not \<open>null\<close>. The property names under which the tag is
  written and read are those of the source text.
\<close>

definition isObject :: "jsval \<Rightarrow> bool" where
  "isObject v = (case v of JObj _ \<Rightarrow> True | JArr _ \<Rightarrow> True | _ \<Rightarrow> False)"

definition isMessengerResponse :: "jsval \<Rightarrow> bool" where
  "isMessengerResponse response =
     (isObject response \<and> get_prop response ''__webextMessenger'' = JBool True)"

definition makeMessage :: "string \<Rightarrow> jsval list \<Rightarrow> jsval \<Rightarrow> jsval \<Rightarrow> jsval" where
  "makeMessage type args target options =
     JObj [(''__webextMessenger'', JBool True), (''type'', JStr type), (''args'', JArr args),
           (''target'', target), (''options'', options)]"

text \<open>
  The body of the function given to the retry library: one delivery attempt and the
  classification of what came back.
\<close>

definition attempt :: "env \<Rightarrow> string \<Rightarrow> jsval \<Rightarrow> (nat \<Rightarrow> settled) \<Rightarrow> nat \<Rightarrow> settled" where
  "attempt e type target sendMessage attemptCount =
     (case sendMessage attemptCount of
        Rejected error \<Rightarrow> Rejected error
      | Fulfilled response \<Rightarrow>
          if isMessengerResponse response then Fulfilled response
          else if response = JUndefined then
            (if has_prop ''page'' target
             then Rejected (MessengerError
                    (''The target '' @ JSON_stringify e target @ '' for '' @ type @ '' was not found''))
             else Rejected (MessengerError
                    (''Messenger was not available in the target '' @ JSON_stringify e target
                       @ '' for '' @ type)))
          else Rejected (MessengerError
                 (''Conflict: The message '' @ type @ '' was handled by a third-party listener'')))"

text \<open>
  \<open>onFailedAttempt\<close> either throws (\<open>Some\<close>), which ends the retry loop with that error,
  or returns (\<open>None\<close>), which lets the loop retry.
\<close>

definition onFailedAttempt :: "env \<Rightarrow> jsval \<Rightarrow> nat \<Rightarrow> err \<Rightarrow> err option" where
  "onFailedAttempt e target attemptCount error =
     (if err_message error = errorTargetClosedEarly_host then Some (Error errorTargetClosedEarly)
      else if (get_prop target ''page'' \<noteq> JStr ''background'' \<and> instanceof_MessengerError error)
              \<or> err_message error = errorNonExistingTarget
              \<or> startsWith (err_message error) ''No handlers registered in ''
      then (if browser_tabs e \<and> is_number (get_prop target ''tabId'')
               \<and> \<not> doesTabExist e attemptCount (num_of (get_prop target ''tabId''))
            then Some (Error errorTabDoesntExist)
            else None)
      else Some error)"

text \<open>
  The retry library \<open>p-retry\<close> is a dependency, not part of the program; the loop is the
  one that section 4.2 of the specification describes. It runs the input with the number of
  the attempt, starting at 1; when the input rejects it runs \<open>onFailedAttempt\<close>; when that
  throws, the loop rejects with what it threw; otherwise the input is run again, unless no
  retry is left, in which case the last failure is the outcome of the loop.
\<close>

fun pRetry :: "(nat \<Rightarrow> settled) \<Rightarrow> (nat \<Rightarrow> err \<Rightarrow> err option) \<Rightarrow> nat \<Rightarrow> nat \<Rightarrow> settled" where
  "pRetry input onFailed retriesLeft attemptCount =
     (case input attemptCount of
        Fulfilled response \<Rightarrow> Fulfilled response
      | Rejected error \<Rightarrow>
          (case onFailed attemptCount error of
             Some thrown \<Rightarrow> Rejected thrown
           | None \<Rightarrow>
               (case retriesLeft of
                  0 \<Rightarrow> Rejected error
                | Suc n \<Rightarrow> pRetry input onFailed n (Suc attemptCount))))"

definition manageMessage :: "env \<Rightarrow> string \<Rightarrow> jsval \<Rightarrow> (nat \<Rightarrow> settled) \<Rightarrow> settled" where
  "manageMessage e type target sendMessage =
     (case pRetry (attempt e type target sendMessage) (onFailedAttempt e target) (retries e) 1 of
        Rejected error \<Rightarrow>
          if err_message error = errorNonExistingTarget
          then Rejected (MessengerError
                 (''The target '' @ JSON_stringify e target @ '' for '' @ type @ '' was not found''))
          else Rejected error
      | Fulfilled response \<Rightarrow>
          if has_prop ''error'' response
          then Rejected (deserializeError e (get_prop response ''error''))
          else Fulfilled (get_prop response ''value''))"

text \<open>
  \<open>manageConnection\<close> is not \<open>async\<close>: for a notification it sends once, drops the promise
  and returns \<open>undefined\<close>.
\<close>

definition manageConnection :: "env \<Rightarrow> string \<Rightarrow> jsval \<Rightarrow> jsval \<Rightarrow> (nat \<Rightarrow> settled) \<Rightarrow> returned" where
  "manageConnection e type options target sendMessage =
     (if \<not> truthy (get_prop options ''isNotification'')
      then Promise (manageMessage e type target sendMessage)
      else Plain JUndefined)"

definition messenger :: "env \<Rightarrow> registry \<Rightarrow> string \<Rightarrow> jsval \<Rightarrow> jsval \<Rightarrow> jsval list \<Rightarrow> result" where
  "messenger e handlers type options target args =
     (if has_prop ''page'' target then
        if get_prop target ''page'' = JStr ''background'' \<and> isBackground e then
          (case handlers type of
             Some handler \<Rightarrow> handler \<lparr>trace = []\<rparr> args
           | None \<Rightarrow> Inl (MessengerError (''No handler registered locally for '' @ type)))
        else
          Inr (manageConnection e type options target
                 (\<lambda>attemptCount. runtime_sendMessage e attemptCount
                                    (makeMessage type args target options)))
      else if \<not> browser_tabs e then
        Inr (manageConnection e type options target
               (\<lambda>attemptCount. runtime_sendMessage e attemptCount
                                  (makeMessage type args target options)))
      else
        let tabId = get_prop target ''tabId'';
            frameId = (if get_prop target ''frameId'' = JUndefined then JNum 0
                       else get_prop target ''frameId'')
        in Inr (manageConnection e type options target
                  (\<lambda>attemptCount. tabs_sendMessage e attemptCount tabId
                                     (makeMessage type args target options) frameId)))"

definition getMethod :: "env \<Rightarrow> registry \<Rightarrow> string \<Rightarrow> jsval \<Rightarrow> jsval list \<Rightarrow> result" where
  "getMethod e handlers type = messenger e handlers type (JObj [])"

definition getNotifier :: "env \<Rightarrow> registry \<Rightarrow> string \<Rightarrow> jsval \<Rightarrow> jsval list \<Rightarrow> result" where
  "getNotifier e handlers type = messenger e handlers type (JObj [(''isNotification'', JBool True)])"

definition backgroundTarget :: jsval where
  "backgroundTarget = JObj [(''page'', JStr ''background'')]"

section \<open>The receiver\<close>

definition isMessengerMessage :: "jsval \<Rightarrow> bool" where
  "isMessengerMessage message =
     (isObject message
      \<and> is_string (get_prop message ''type'')
      \<and> get_prop message ''__webext_messenger__'' = JBool True
      \<and> isArray (get_prop message ''args''))"

text \<open>
  Modelled from the spec: the receiver imports \<open>getContentScriptMethod\<close> from \<open>sender.js\<close>,
  and the sender among the sources does not define it. In the forward case the receiver
  is to "issue a new outbound call (4.2) to target with the same method and arguments and
  await its result or error": the outbound call of 4.2 is \<open>messenger\<close>, and a call that is
  awaited is one whose options do not ask for a notification, which is how \<open>getMethod\<close>
  binds them.
\<close>

definition getContentScriptMethod :: "env \<Rightarrow> registry \<Rightarrow> string \<Rightarrow> jsval \<Rightarrow> jsval list \<Rightarrow> result" where
  "getContentScriptMethod e handlers type = getMethod e handlers type"

text \<open>
  The two \<open>then\<close> steps that end the listener: the outcome of the handler becomes
  \<open>{value}\<close> or \<open>{error}\<close>, and the tag is added under the receiver's key. The promise the
  listener returns never rejects.
\<close>

definition respond :: "env \<Rightarrow> settled \<Rightarrow> settled" where
  "respond e outcome =
     (case outcome of
        Fulfilled v \<Rightarrow>
          Fulfilled (JObj [(''value'', v), (''__webext_messenger__'', JBool True)])
      | Rejected error \<Rightarrow>
          Fulfilled (JObj [(''error'', serializeError e error),
                           (''__webext_messenger__'', JBool True)]))"

definition onMessageListener :: "env \<Rightarrow> registry \<Rightarrow> jsval \<Rightarrow> jsval \<Rightarrow> result" where
  "onMessageListener e handlers message sender =
     (if \<not> isMessengerMessage message then Inr (Plain JUndefined)
      else
        let type = str_of (get_prop message ''type'');
            target = get_prop message ''target'';
            args = elems_of (get_prop message ''args'')
        in if truthy target then
             if \<not> browser_tabs e then
               Inl (MessengerError
                      (''Message '' @ type @ '' sent to wrong context, it can't be forwarded to ''
                         @ JSON_stringify e target))
             else
               Inr (Promise (respond e
                      (async_call (getContentScriptMethod e handlers type target args))))
           else
             (case handlers type of
                None \<Rightarrow> Inr (Plain JUndefined)
              | Some localHandler \<Rightarrow>
                  Inr (Promise (respond e
                         (async_call (localHandler \<lparr>trace = [sender]\<rparr> args))))))"

text \<open>
  \<open>registerMethods\<close> works on the registry of the context and on the flag that tells
  whether the listener is armed. The entries are those of \<open>Object.entries(methods)\<close>, in
  order. A throw leaves the entries stored before it in the registry.
\<close>

record page_state =
  handlers_of :: registry
  listening :: bool

fun register_entries :: "(string \<times> handler) list \<Rightarrow> registry \<Rightarrow> err option \<times> registry" where
  "register_entries [] handlers = (None, handlers)"
| "register_entries ((type, method) # rest) handlers =
     (if handlers type \<noteq> None
      then (Some (MessengerError (''Handler already set for '' @ type)), handlers)
      else register_entries rest (handlers(type \<mapsto> method)))"

definition registerMethods :: "env \<Rightarrow> (string \<times> handler) list \<Rightarrow> page_state \<Rightarrow> err option \<times> page_state" where
  "registerMethods e methods c =
     (case register_entries methods (handlers_of c) of
        (Some error, handlers) \<Rightarrow> (Some error, c\<lparr>handlers_of := handlers\<rparr>)
      | (None, handlers) \<Rightarrow>
          if browser_defined e
          then (None, c\<lparr>handlers_of := handlers, listening := True\<rparr>)
          else (Some (Error ''`webext-messenger` requires `webextension''),
                c\<lparr>handlers_of := handlers\<rparr>))"

section \<open>Example contexts\<close>

text \<open>
  Concrete hosts, registries and messages on which the theorems below are evaluated.
  \<open>page_env\<close> is a page with tab access whose bus is never answered; its
  \<open>JSON.stringify\<close> is given on the two targets that the examples print.
\<close>

definition ping :: handler where
  "ping m args = Inr (Plain (JNum 7))"

definition failing :: handler where
  "failing m args = Inr (Promise (Rejected (Error ''boom'')))"

definition other :: handler where
  "other m args = Inr (Plain (JStr ''other''))"

definition ping_registry :: registry where
  "ping_registry = [''ping'' \<mapsto> ping]"

definition failing_registry :: registry where
  "failing_registry = [''ping'' \<mapsto> failing]"

definition tab1 :: jsval where
  "tab1 = JObj [(''tabId'', JNum 1)]"

definition print_target :: "jsval \<Rightarrow> string" where
  \<open>print_target target =
     (if target = backgroundTarget then ''{"page":"background"}'' else ''{"tabId":1}'')\<close>

definition page_env :: env where
  \<open>page_env =
     \<lparr>browser_defined = True, browser_tabs = True, isBackground = False,
      runtime_sendMessage = (\<lambda>attemptCount message. Fulfilled JUndefined),
      tabs_sendMessage = (\<lambda>attemptCount tabId message frameId. Fulfilled JUndefined),
      doesTabExist = (\<lambda>attemptCount tabId. True),
      JSON_stringify = print_target,
      serializeError = (\<lambda>error. JObj [(''message'', JStr (err_message error))]),
      deserializeError = (\<lambda>v. Error (str_of (get_prop v ''message''))),
      retries = 2\<rparr>\<close>

definition background_env :: env where
  "background_env = page_env\<lparr>isBackground := True\<rparr>"

definition content_script_env :: env where
  "content_script_env = page_env\<lparr>browser_tabs := False\<rparr>"

definition untagged_message :: jsval where
  "untagged_message = JObj [(''type'', JStr ''ping''), (''args'', JArr [])]"

definition local_message :: jsval where
  "local_message =
     JObj [(''__webext_messenger__'', JBool True), (''type'', JStr ''ping''), (''args'', JArr [])]"

definition some_sender :: jsval where
  "some_sender = JObj [(''id'', JStr ''extension'')]"

definition reply42 :: jsval where
  "reply42 = JObj [(''__webextMessenger'', JBool True), (''value'', JNum 42)]"

definition genuine_reply :: jsval where
  "genuine_reply = JObj [(''value'', JNum 7), (''__webext_messenger__'', JBool True)]"

definition forward_message :: jsval where
  "forward_message =
     JObj [(''__webext_messenger__'', JBool True), (''type'', JStr ''ping''), (''args'', JArr []),
           (''target'', tab1), (''options'', JObj [(''isNotification'', JBool True)])]"

text \<open>Ways in which the bus may answer the successive attempts of one call.\<close>

definition fails_once :: "nat \<Rightarrow> settled" where
  "fails_once attemptCount =
     (if attemptCount = 1 then Rejected (Error ''boom'') else Fulfilled reply42)"

definition foreign_once :: "nat \<Rightarrow> settled" where
  "foreign_once attemptCount =
     (if attemptCount = 1 then Fulfilled (JStr ''hello'') else Fulfilled reply42)"

definition unreachable :: "nat \<Rightarrow> settled" where
  "unreachable attemptCount = Rejected (Error errorNonExistingTarget)"

definition unanswered :: "nat \<Rightarrow> settled" where
  "unanswered attemptCount = Fulfilled JUndefined"

definition replying :: "nat \<Rightarrow> settled" where
  "replying attemptCount = Fulfilled genuine_reply"

definition broken_bus_env :: env where
  "broken_bus_env =
     page_env\<lparr>tabs_sendMessage :=
       (\<lambda>attemptCount tabId message frameId. Rejected (Error errorNonExistingTarget))\<rparr>"

definition gone_env :: env where
  "gone_env = page_env\<lparr>doesTabExist := (\<lambda>attemptCount tabId. False)\<rparr>"

definition relay_env :: env where
  "relay_env =
     page_env\<lparr>tabs_sendMessage := (\<lambda>attemptCount tabId message frameId. Fulfilled reply42)\<rparr>"

text \<open>
  A bus that reaches a receiving context: the host calls the listener of that context with
  the envelope. A promise returned by the listener settles the sender's promise; when the
  listener returns nothing, nobody answers and the sender receives \<open>undefined\<close>; when the
  listener throws, the sender's promise rejects with the message of the error.
  \<open>caller_env\<close> is a page whose messages to a tab reach the content script that has
  registered \<open>ping\<close>.
\<close>

definition deliver :: "env \<Rightarrow> registry \<Rightarrow> jsval \<Rightarrow> jsval \<Rightarrow> settled" where
  "deliver receiver handlers sender message =
     (case onMessageListener receiver handlers message sender of
        Inl error \<Rightarrow> Rejected (Error (err_message error))
      | Inr (Plain v) \<Rightarrow> Fulfilled JUndefined
      | Inr (Promise answer) \<Rightarrow> answer)"

definition caller_env :: env where
  "caller_env =
     page_env\<lparr>tabs_sendMessage :=
       (\<lambda>attemptCount tabId message frameId.
          deliver content_script_env ping_registry some_sender message)\<rparr>"

section \<open>Facts about the building blocks\<close>

declare pRetry.simps [simp del]

lemma pRetry_throw:
  "input n = Rejected error \<Longrightarrow> onFailed n error = Some thrown \<Longrightarrow>
   pRetry input onFailed k n = Rejected thrown"
  by (simp add: pRetry.simps)

lemma pRetry_success:
  "input n = Fulfilled response \<Longrightarrow> pRetry input onFailed k n = Fulfilled response"
  by (simp add: pRetry.simps)

lemma onFailedAttempt_throws:
  assumes "err_message error \<noteq> errorNonExistingTarget"
    and "\<not> startsWith (err_message error) ''No handlers registered in ''"
    and "\<not> instanceof_MessengerError error \<or> get_prop target ''page'' = JStr ''background''"
  shows "onFailedAttempt e target n error =
           Some (if err_message error = errorTargetClosedEarly_host
                 then Error errorTargetClosedEarly else error)"
  using assms by (auto simp: onFailedAttempt_def)

lemma onFailedAttempt_tab_gone:
  assumes "err_message error \<noteq> errorTargetClosedEarly_host"
    and "(get_prop target ''page'' \<noteq> JStr ''background'' \<and> instanceof_MessengerError error)
         \<or> err_message error = errorNonExistingTarget
         \<or> startsWith (err_message error) ''No handlers registered in ''"
    and "browser_tabs e" and "get_prop target ''tabId'' = JNum tabId"
    and "\<not> doesTabExist e n tabId"
  shows "onFailedAttempt e target n error = Some (Error errorTabDoesntExist)"
  using assms by (auto simp: onFailedAttempt_def)

lemma sender_envelope_not_recognized:
  "\<not> isMessengerMessage (makeMessage type args target options)"
  by (simp add: isMessengerMessage_def makeMessage_def)

lemma receiver_response_not_recognized:
  "respond e outcome = Fulfilled response \<Longrightarrow> \<not> isMessengerResponse response"
  by (auto simp: respond_def isMessengerResponse_def split: settled.splits)

lemma get_prop_has_prop: "get_prop target k \<noteq> JUndefined \<Longrightarrow> has_prop k target"
  by (cases target) (auto split: option.splits)

lemma register_entries_keeps:
  "handlers t = Some f \<Longrightarrow> snd (register_entries methods handlers) t = Some f"
proof (induction methods arbitrary: handlers)
  case Nil
  then show ?case by simp
next
  case (Cons entry rest)
  obtain type fn where entry: "entry = (type, fn)" by (cases entry)
  show ?case
  proof (cases "handlers type = None")
    case True
    with Cons.prems have "(handlers(type \<mapsto> fn)) t = Some f" by auto
    then have "snd (register_entries rest (handlers(type \<mapsto> fn))) t = Some f"
      by (rule Cons.IH)
    with True entry show ?thesis by simp
  next
    case False
    with Cons.prems entry show ?thesis by simp
  qed
qed

lemma register_entries_fails:
  "t \<in> fst ` set methods \<Longrightarrow> handlers t \<noteq> None \<Longrightarrow>
   \<exists>name \<in> fst ` set methods.
     fst (register_entries methods handlers)
       = Some (MessengerError (''Handler already set for '' @ name))"
proof (induction methods arbitrary: handlers)
  case Nil
  then show ?case by simp
next
  case (Cons entry rest)
  obtain type fn where entry: "entry = (type, fn)" by (cases entry)
  show ?case
  proof (cases "handlers type = None")
    case True
    with Cons.prems entry have "t \<in> fst ` set rest" by auto
    moreover from Cons.prems have "(handlers(type \<mapsto> fn)) t \<noteq> None" by simp
    ultimately obtain name where "name \<in> fst ` set rest"
      and "fst (register_entries rest (handlers(type \<mapsto> fn)))
             = Some (MessengerError (''Handler already set for '' @ name))"
      using Cons.IH by blast
    with True entry show ?thesis by auto
  next
    case False
    with entry show ?thesis by auto
  qed
qed

section \<open>The local bypass\<close>

text \<open>
  C4. When the target is the background page and the code runs in the background context,
  \<open>messenger\<close> does not use the bus: the result is that of the handler registered under
  the method name, applied to an empty trace and the arguments, whatever the host's bus
  would do and whatever the options are; with no handler registered, \<open>messenger\<close> throws the
  handler-not-found \<open>MessengerError\<close>.
\<close>

theorem local_bypass:
  "get_prop target ''page'' = JStr ''background'' \<Longrightarrow> isBackground e \<Longrightarrow>
   messenger e handlers type options target args =
     (case handlers type of
        Some handler \<Rightarrow> handler \<lparr>trace = []\<rparr> args
      | None \<Rightarrow> Inl (MessengerError (''No handler registered locally for '' @ type)))"
  using get_prop_has_prop [of target "''page''"] by (simp add: messenger_def)

theorem local_bypass_witness:
  "get_prop backgroundTarget ''page'' = JStr ''background''
   \<and> isBackground background_env
   \<and> messenger background_env ping_registry ''ping'' (JObj []) backgroundTarget []
       = Inr (Plain (JNum 7))
   \<and> messenger background_env ping_registry ''pong'' (JObj []) backgroundTarget []
       = Inl (MessengerError ''No handler registered locally for pong'')"
proof -
  have page: "get_prop backgroundTarget ''page'' = JStr ''background''"
    by (simp add: backgroundTarget_def)
  have bg: "isBackground background_env"
    by (simp add: background_env_def page_env_def)
  show ?thesis
    using page bg
      local_bypass [OF page bg, of ping_registry "''ping''" "JObj []" "[]"]
      local_bypass [OF page bg, of ping_registry "''pong''" "JObj []" "[]"]
    by (simp add: ping_registry_def ping_def)
qed

section \<open>The listener\<close>

text \<open>
  C9. A payload that is not an envelope (not an object, no protocol tag, a type that is
  not a string, or arguments that are not an array) and an envelope without a target, the
  method of which has no local handler, are ignored: the listener returns \<open>undefined\<close>,
  which is no answer, and does not throw.
\<close>

theorem listener_ignores:
  "\<not> isObject message
   \<or> get_prop message ''__webext_messenger__'' \<noteq> JBool True
   \<or> \<not> is_string (get_prop message ''type'')
   \<or> \<not> isArray (get_prop message ''args'')
   \<or> (\<not> truthy (get_prop message ''target'')
       \<and> handlers (str_of (get_prop message ''type'')) = None) \<Longrightarrow>
   onMessageListener e handlers message sender = Inr (Plain JUndefined)"
  by (auto simp: onMessageListener_def isMessengerMessage_def Let_def)

theorem listener_ignores_witness:
  "get_prop untagged_message ''__webext_messenger__'' \<noteq> JBool True
   \<and> onMessageListener page_env ping_registry untagged_message some_sender
       = Inr (Plain JUndefined)
   \<and> \<not> truthy (get_prop local_message ''target'')
   \<and> Map.empty (str_of (get_prop local_message ''type'')) = (None :: handler option)
   \<and> onMessageListener page_env Map.empty local_message some_sender
       = Inr (Plain JUndefined)"
proof -
  have untagged: "get_prop untagged_message ''__webext_messenger__'' \<noteq> JBool True"
    by (simp add: untagged_message_def)
  have unhandled: "\<not> truthy (get_prop local_message ''target'')
      \<and> Map.empty (str_of (get_prop local_message ''type'')) = (None :: handler option)"
    by (simp add: local_message_def)
  show ?thesis
    using untagged unhandled
      listener_ignores [of untagged_message ping_registry page_env some_sender]
      listener_ignores [of local_message Map.empty page_env some_sender]
    by simp
qed

section \<open>Registration\<close>

text \<open>
  C8. Registering methods of which one name is already registered in the context fails
  with the \<open>MessengerError\<close> "Handler already set for" one of the given names; the entry
  that was registered under the name before is still the entry under that name afterwards,
  so the earlier handler stays the one that calls reach, and the failed call does not
  change whether the listener is armed. The registry is a map, as the \<open>Map\<close> of the
  source is: a name has at most one entry, and the test before \<open>set\<close> keeps it the first.
\<close>

theorem duplicate_registration:
  assumes "type \<in> fst ` set methods" and "handlers_of c type = Some f"
  shows "(\<exists>name \<in> fst ` set methods.
            fst (registerMethods e methods c)
              = Some (MessengerError (''Handler already set for '' @ name)))
         \<and> handlers_of (snd (registerMethods e methods c)) type = Some f
         \<and> listening (snd (registerMethods e methods c)) = listening c"
proof -
  from assms obtain name where name: "name \<in> fst ` set methods"
    and fails: "fst (register_entries methods (handlers_of c))
                  = Some (MessengerError (''Handler already set for '' @ name))"
    using register_entries_fails [of type methods "handlers_of c"] by auto
  have keeps: "snd (register_entries methods (handlers_of c)) type = Some f"
    using assms(2) by (rule register_entries_keeps)
  obtain r h where rh: "register_entries methods (handlers_of c) = (r, h)"
    by (cases "register_entries methods (handlers_of c)")
  with fails keeps name show ?thesis
    by (auto simp: registerMethods_def)
qed

theorem duplicate_registration_witness:
  "''ping'' \<in> fst ` set [(''ping'', other)]
   \<and> handlers_of \<lparr>handlers_of = ping_registry, listening = True\<rparr> ''ping'' = Some ping
   \<and> fst (registerMethods page_env [(''ping'', other)]
             \<lparr>handlers_of = ping_registry, listening = True\<rparr>)
       = Some (MessengerError ''Handler already set for ping'')
   \<and> handlers_of (snd (registerMethods page_env [(''ping'', other)]
                          \<lparr>handlers_of = ping_registry, listening = True\<rparr>)) ''ping''
       = Some ping"
proof -
  have given: "''ping'' \<in> fst ` set [(''ping'', other)]"
    by simp
  have before: "handlers_of \<lparr>handlers_of = ping_registry, listening = True\<rparr> ''ping'' = Some ping"
    by (simp add: ping_registry_def)
  show ?thesis
    using given before duplicate_registration [OF given before, of page_env]
    by simp
qed

section \<open>One delivery attempt\<close>

text \<open>
  C5. What an attempt on a target (an object) receives is classified three ways. A value
  that \<open>isMessengerResponse\<close> accepts ends the retry loop with that value. Any other value
  that is not \<open>undefined\<close> makes the attempt fail with the conflict \<open>MessengerError\<close>,
  whatever its shape, and never counts as a result; this error ends the loop at once when
  the target is the background page (for the other targets it is a \<open>MessengerError\<close> like
  any other and falls under the retry policy). \<open>undefined\<close> makes the attempt fail with
  "was not found" when the target has a \<open>page\<close>, and with "Messenger was not available in
  the target" otherwise.
\<close>

theorem attempt_classification:
  assumes "sendMessage n = Fulfilled response" and "isObject target"
  shows "(isMessengerResponse response \<longrightarrow>
            pRetry (attempt e type target sendMessage) onFailed k n = Fulfilled response)
       \<and> (\<not> isMessengerResponse response \<and> response \<noteq> JUndefined \<longrightarrow>
            attempt e type target sendMessage n
              = Rejected (MessengerError
                  (''Conflict: The message '' @ type @ '' was handled by a third-party listener''))
            \<and> (get_prop target ''page'' = JStr ''background'' \<longrightarrow>
                 pRetry (attempt e type target sendMessage) (onFailedAttempt e target) k n
                   = Rejected (MessengerError
                       (''Conflict: The message '' @ type
                          @ '' was handled by a third-party listener''))))
       \<and> (response = JUndefined \<longrightarrow>
            attempt e type target sendMessage n
              = Rejected (MessengerError
                  (if has_prop ''page'' target
                   then ''The target '' @ JSON_stringify e target @ '' for '' @ type
                          @ '' was not found''
                   else ''Messenger was not available in the target ''
                          @ JSON_stringify e target @ '' for '' @ type)))"
proof -
  let ?conflict = "MessengerError
     (''Conflict: The message '' @ type @ '' was handled by a third-party listener'')"
  have success: "isMessengerResponse response \<longrightarrow>
      pRetry (attempt e type target sendMessage) onFailed k n = Fulfilled response"
    using assms(1) by (simp add: pRetry_success attempt_def)
  have conflict: "\<not> isMessengerResponse response \<and> response \<noteq> JUndefined \<longrightarrow>
      attempt e type target sendMessage n = Rejected ?conflict"
    using assms(1) by (simp add: attempt_def)
  have thrown: "get_prop target ''page'' = JStr ''background'' \<Longrightarrow>
      onFailedAttempt e target n ?conflict = Some ?conflict"
    by (simp add: onFailedAttempt_def errorTargetClosedEarly_host_def
          errorNonExistingTarget_def startsWith_def)
  have final: "\<not> isMessengerResponse response \<and> response \<noteq> JUndefined \<longrightarrow>
      get_prop target ''page'' = JStr ''background'' \<longrightarrow>
      pRetry (attempt e type target sendMessage) (onFailedAttempt e target) k n
        = Rejected ?conflict"
    using conflict thrown by (auto intro: pRetry_throw)
  have unanswered: "response = JUndefined \<longrightarrow>
      attempt e type target sendMessage n
        = Rejected (MessengerError
            (if has_prop ''page'' target
             then ''The target '' @ JSON_stringify e target @ '' for '' @ type
                    @ '' was not found''
             else ''Messenger was not available in the target ''
                    @ JSON_stringify e target @ '' for '' @ type))"
    using assms(1) by (simp add: attempt_def isMessengerResponse_def isObject_def)
  from success conflict final unanswered show ?thesis by blast
qed

theorem attempt_classification_witness:
  \<open>foreign_once 2 = Fulfilled reply42
   \<and> isObject tab1 \<and> isObject backgroundTarget
   \<and> isMessengerResponse reply42
   \<and> pRetry (attempt page_env ''ping'' tab1 foreign_once) (onFailedAttempt page_env tab1) 0 2
       = Fulfilled reply42
   \<and> foreign_once 1 = Fulfilled (JStr ''hello'')
   \<and> \<not> isMessengerResponse (JStr ''hello'') \<and> JStr ''hello'' \<noteq> JUndefined
   \<and> get_prop backgroundTarget ''page'' = JStr ''background''
   \<and> pRetry (attempt page_env ''ping'' backgroundTarget foreign_once)
         (onFailedAttempt page_env backgroundTarget) 2 1
       = Rejected (MessengerError
           ''Conflict: The message ping was handled by a third-party listener'')
   \<and> unanswered 1 = Fulfilled JUndefined
   \<and> attempt page_env ''ping'' backgroundTarget unanswered 1
       = Rejected (MessengerError ''The target {"page":"background"} for ping was not found'')\<close>
proof -
  have second: "foreign_once 2 = Fulfilled reply42"
    by (simp add: foreign_once_def)
  have first: "foreign_once 1 = Fulfilled (JStr ''hello'')"
    by (simp add: foreign_once_def)
  have none: "unanswered 1 = Fulfilled JUndefined"
    by (simp add: unanswered_def)
  have tab: "isObject tab1"
    by (simp add: tab1_def isObject_def)
  have page: "isObject backgroundTarget"
    by (simp add: backgroundTarget_def isObject_def)
  have facts: "isMessengerResponse reply42 \<and> \<not> isMessengerResponse (JStr ''hello'')
      \<and> JStr ''hello'' \<noteq> JUndefined
      \<and> get_prop backgroundTarget ''page'' = JStr ''background''
      \<and> has_prop ''page'' backgroundTarget"
    by (simp add: reply42_def isMessengerResponse_def isObject_def backgroundTarget_def)
  show ?thesis
    using second first none tab page facts
      attempt_classification [where sendMessage = foreign_once and n = 2 and e = page_env
        and type = "''ping''" and target = tab1 and onFailed = "onFailedAttempt page_env tab1"
        and k = 0, OF second tab]
      attempt_classification [where sendMessage = foreign_once and n = 1 and e = page_env
        and type = "''ping''" and target = backgroundTarget
        and onFailed = "onFailedAttempt page_env backgroundTarget" and k = 2, OF first page]
      attempt_classification [where sendMessage = unanswered and n = 1 and e = page_env
        and type = "''ping''" and target = backgroundTarget, OF none page]
    by (simp add: page_env_def print_target_def)
qed

text \<open>
  The conflict error is not non-retryable in general, as the specification has it. For a
  tab it is retried: the first attempt is answered by a foreign listener, the second by the
  messenger, and the call returns the second answer.
\<close>

theorem conflict_retried_counterexample:
  "onFailedAttempt page_env tab1 1
     (MessengerError ''Conflict: The message ping was handled by a third-party listener'') = None
   \<and> manageMessage page_env ''ping'' tab1 foreign_once = Fulfilled (JNum 42)"
  by (simp add: onFailedAttempt_def manageMessage_def attempt_def pRetry.simps
        isMessengerResponse_def isObject_def errorTargetClosedEarly_host_def
        errorNonExistingTarget_def startsWith_def
        page_env_def tab1_def foreign_once_def reply42_def)

section \<open>The retry policy\<close>

text \<open>
  C3. A failure whose message is neither of the two transient host messages and that is
  not a \<open>MessengerError\<close> is never retried, whatever object the target is, the
  background page included: the loop ends at once with that failure, or with the
  closed-early error when the failure carries the host's closed-channel message. When the
  target is the background page, a \<open>MessengerError\<close> that carries no transient message is
  not retried either.
\<close>

theorem unrecognized_failure_not_retried:
  assumes "input n = Rejected error" and "isObject target"
    and "err_message error \<noteq> errorNonExistingTarget"
    and "\<not> startsWith (err_message error) ''No handlers registered in ''"
    and "\<not> instanceof_MessengerError error \<or> get_prop target ''page'' = JStr ''background''"
  shows "pRetry input (onFailedAttempt e target) k n =
           Rejected (if err_message error = errorTargetClosedEarly_host
                     then Error errorTargetClosedEarly else error)"
  using assms(1) onFailedAttempt_throws [OF assms(3-5)] by (rule pRetry_throw)

theorem unrecognized_failure_not_retried_witness:
  "fails_once 1 = Rejected (Error ''boom'')
   \<and> isObject tab1
   \<and> err_message (Error ''boom'') \<noteq> errorNonExistingTarget
   \<and> \<not> startsWith (err_message (Error ''boom'')) ''No handlers registered in ''
   \<and> \<not> instanceof_MessengerError (Error ''boom'')
   \<and> pRetry fails_once (onFailedAttempt page_env tab1) 2 1 = Rejected (Error ''boom'')"
proof -
  have failed: "fails_once 1 = Rejected (Error ''boom'')"
    by (simp add: fails_once_def)
  have object: "isObject tab1"
    by (simp add: tab1_def isObject_def)
  have no_target: "err_message (Error ''boom'') \<noteq> errorNonExistingTarget"
    by (simp add: errorNonExistingTarget_def)
  have no_handlers: "\<not> startsWith (err_message (Error ''boom'')) ''No handlers registered in ''"
    by (simp add: startsWith_def)
  have foreign: "\<not> instanceof_MessengerError (Error ''boom'')
                 \<or> get_prop tab1 ''page'' = JStr ''background''"
    by simp
  show ?thesis
    using failed object no_target no_handlers
      unrecognized_failure_not_retried [where input = fails_once and n = 1 and e = page_env
        and k = 2, OF failed object no_target no_handlers foreign]
    by (simp add: errorTargetClosedEarly_host_def)
qed

text \<open>
  The specification has such failures retried when the target is the background page.
  There the loop stops at the first failure, although the second attempt would have been
  answered.
\<close>

theorem background_failure_not_retried_counterexample:
  "onFailedAttempt page_env backgroundTarget 1 (Error ''boom'') = Some (Error ''boom'')
   \<and> manageMessage page_env ''ping'' backgroundTarget fails_once = Rejected (Error ''boom'')"
  by (simp add: onFailedAttempt_def manageMessage_def attempt_def pRetry.simps
        errorTargetClosedEarly_host_def errorNonExistingTarget_def startsWith_def
        page_env_def backgroundTarget_def fails_once_def)

text \<open>
  C6. When an attempt fails with a failure that the policy would retry, the host's tab
  query decides whether the retry takes place, and it is asked exactly when the host has
  tab addressing and the target's \<open>tabId\<close> is a number. If the query says that the tab
  does not exist, \<open>onFailedAttempt\<close> throws "The tab doesn't exist" and the loop ends at
  once with that error, whatever number of retries is left; at the first attempt it is the
  error with which the call rejects. If the query says that the tab exists,
  \<open>onFailedAttempt\<close> returns and the loop goes on: it makes the next attempt while a retry
  is left, and ends with the failure of the attempt when none is.
\<close>

theorem tab_gone_stops_retrying:
  assumes "attempt e type target sendMessage n = Rejected error"
    and "err_message error \<noteq> errorTargetClosedEarly_host"
    and "(get_prop target ''page'' \<noteq> JStr ''background'' \<and> instanceof_MessengerError error)
         \<or> err_message error = errorNonExistingTarget
         \<or> startsWith (err_message error) ''No handlers registered in ''"
  shows "onFailedAttempt e target n error
           = (if browser_tabs e \<and> is_number (get_prop target ''tabId'')
                 \<and> \<not> doesTabExist e n (num_of (get_prop target ''tabId''))
              then Some (Error errorTabDoesntExist) else None)
         \<and> (browser_tabs e \<and> get_prop target ''tabId'' = JNum tabId
              \<and> \<not> doesTabExist e n tabId \<longrightarrow>
                pRetry (attempt e type target sendMessage) (onFailedAttempt e target) k n
                  = Rejected (Error errorTabDoesntExist)
                \<and> (n = 1 \<longrightarrow> manageMessage e type target sendMessage
                                 = Rejected (Error errorTabDoesntExist)))
         \<and> (browser_tabs e \<and> get_prop target ''tabId'' = JNum tabId
              \<and> doesTabExist e n tabId \<longrightarrow>
                onFailedAttempt e target n error = None
                \<and> pRetry (attempt e type target sendMessage) (onFailedAttempt e target) (Suc k) n
                    = pRetry (attempt e type target sendMessage) (onFailedAttempt e target) k
                        (Suc n)
                \<and> pRetry (attempt e type target sendMessage) (onFailedAttempt e target) 0 n
                    = Rejected error)"
proof -
  have decides: "onFailedAttempt e target n error
      = (if browser_tabs e \<and> is_number (get_prop target ''tabId'')
            \<and> \<not> doesTabExist e n (num_of (get_prop target ''tabId''))
         then Some (Error errorTabDoesntExist) else None)"
    using assms(2,3) by (auto simp: onFailedAttempt_def)
  have gone: "pRetry (attempt e type target sendMessage) (onFailedAttempt e target) k n
                = Rejected (Error errorTabDoesntExist)
              \<and> (n = 1 \<longrightarrow> manageMessage e type target sendMessage
                               = Rejected (Error errorTabDoesntExist))"
    if tabs: "browser_tabs e" and tab: "get_prop target ''tabId'' = JNum tabId"
      and dead: "\<not> doesTabExist e n tabId"
  proof -
    have stop: "pRetry (attempt e type target sendMessage) (onFailedAttempt e target) j n
                  = Rejected (Error errorTabDoesntExist)" for j
      using assms(1) onFailedAttempt_tab_gone [OF assms(2,3) tabs tab dead]
      by (rule pRetry_throw)
    have "errorTabDoesntExist \<noteq> errorNonExistingTarget"
      by (simp add: errorTabDoesntExist_def errorNonExistingTarget_def)
    with stop [of "retries e"] have "n = 1 \<longrightarrow> manageMessage e type target sendMessage
                            = Rejected (Error errorTabDoesntExist)"
      by (auto simp: manageMessage_def)
    with stop show ?thesis by simp
  qed
  have alive: "onFailedAttempt e target n error = None
      \<and> pRetry (attempt e type target sendMessage) (onFailedAttempt e target) (Suc k) n
          = pRetry (attempt e type target sendMessage) (onFailedAttempt e target) k (Suc n)
      \<and> pRetry (attempt e type target sendMessage) (onFailedAttempt e target) 0 n
          = Rejected error"
    if tabs: "browser_tabs e" and tab: "get_prop target ''tabId'' = JNum tabId"
      and live: "doesTabExist e n tabId"
  proof -
    from decides tab live have returns: "onFailedAttempt e target n error = None"
      by simp
    from assms(1) returns
    have "pRetry (attempt e type target sendMessage) (onFailedAttempt e target) j n
            = (case j of 0 \<Rightarrow> Rejected error
               | Suc m \<Rightarrow> pRetry (attempt e type target sendMessage)
                           (onFailedAttempt e target) m (Suc n))" for j
      by (subst pRetry.simps) simp
    from this [of "Suc k"] this [of 0] returns show ?thesis by simp
  qed
  from decides gone alive show ?thesis by blast
qed

theorem tab_gone_stops_retrying_witness:
  \<open>attempt gone_env ''ping'' tab1 unreachable 1 = Rejected (Error errorNonExistingTarget)
   \<and> attempt page_env ''ping'' tab1 unreachable 1 = Rejected (Error errorNonExistingTarget)
   \<and> err_message (Error errorNonExistingTarget) \<noteq> errorTargetClosedEarly_host
   \<and> browser_tabs gone_env \<and> browser_tabs page_env
   \<and> get_prop tab1 ''tabId'' = JNum 1
   \<and> \<not> doesTabExist gone_env 1 1
   \<and> onFailedAttempt gone_env tab1 1 (Error errorNonExistingTarget)
       = Some (Error errorTabDoesntExist)
   \<and> manageMessage gone_env ''ping'' tab1 unreachable = Rejected (Error errorTabDoesntExist)
   \<and> doesTabExist page_env 1 1
   \<and> onFailedAttempt page_env tab1 1 (Error errorNonExistingTarget) = None
   \<and> pRetry (attempt page_env ''ping'' tab1 unreachable) (onFailedAttempt page_env tab1) 1 1
       = pRetry (attempt page_env ''ping'' tab1 unreachable) (onFailedAttempt page_env tab1) 0
           (Suc 1)
   \<and> pRetry (attempt page_env ''ping'' tab1 unreachable) (onFailedAttempt page_env tab1) 0 1
       = Rejected (Error errorNonExistingTarget)
   \<and> manageMessage page_env ''ping'' tab1 unreachable
       = Rejected (MessengerError ''The target {"tabId":1} for ping was not found'')\<close>
proof -
  have failed_gone: "attempt gone_env ''ping'' tab1 unreachable 1
                       = Rejected (Error errorNonExistingTarget)"
    by (simp add: attempt_def unreachable_def)
  have failed_live: "attempt page_env ''ping'' tab1 unreachable 1
                       = Rejected (Error errorNonExistingTarget)"
    by (simp add: attempt_def unreachable_def)
  have not_closed: "err_message (Error errorNonExistingTarget) \<noteq> errorTargetClosedEarly_host"
    by (simp add: errorNonExistingTarget_def errorTargetClosedEarly_host_def)
  have retryable:
    "(get_prop tab1 ''page'' \<noteq> JStr ''background''
        \<and> instanceof_MessengerError (Error errorNonExistingTarget))
     \<or> err_message (Error errorNonExistingTarget) = errorNonExistingTarget
     \<or> startsWith (err_message (Error errorNonExistingTarget)) ''No handlers registered in ''"
    by simp
  have tabs: "browser_tabs gone_env \<and> browser_tabs page_env"
    by (simp add: gone_env_def page_env_def)
  have tab: "get_prop tab1 ''tabId'' = JNum 1"
    by (simp add: tab1_def)
  have gone: "\<not> doesTabExist gone_env 1 1"
    by (simp add: gone_env_def)
  have live: "doesTabExist page_env 1 1"
    by (simp add: page_env_def)
  have exhausted: "manageMessage page_env ''ping'' tab1 unreachable
      = Rejected (MessengerError (''The target '' @ print_target tab1
                                    @ '' for ping was not found''))"
    by (simp add: manageMessage_def attempt_def onFailedAttempt_def pRetry.simps
          unreachable_def page_env_def tab1_def errorNonExistingTarget_def
          errorTargetClosedEarly_host_def)
  show ?thesis
    using failed_gone failed_live not_closed tabs tab gone live exhausted
      tab_gone_stops_retrying [OF failed_gone not_closed retryable, of 1 0]
      tab_gone_stops_retrying [OF failed_live not_closed retryable, of 1 0]
    by (simp add: print_target_def tab1_def backgroundTarget_def)
qed

section \<open>Notifications\<close>

text \<open>
  C2. A call whose options set \<open>isNotification\<close>, on a target other than the
  background page addressed from within the background context, returns \<open>undefined\<close>
  whatever the bus does with the envelope: no exception is thrown and no promise that could
  reject is handed to the caller.
\<close>

theorem notification_returns_void:
  assumes "isObject target"
    and "truthy (get_prop options ''isNotification'')"
    and "\<not> (get_prop target ''page'' = JStr ''background'' \<and> isBackground e)"
  shows "messenger e handlers type options target args = Inr (Plain JUndefined)"
  using assms(2,3) by (auto simp: messenger_def manageConnection_def Let_def)

theorem notification_returns_void_witness:
  "isObject tab1
   \<and> truthy (get_prop (JObj [(''isNotification'', JBool True)]) ''isNotification'')
   \<and> \<not> (get_prop tab1 ''page'' = JStr ''background'' \<and> isBackground broken_bus_env)
   \<and> messenger broken_bus_env Map.empty ''ping'' (JObj [(''isNotification'', JBool True)]) tab1 []
       = Inr (Plain JUndefined)"
proof -
  have object: "isObject tab1"
    by (simp add: tab1_def isObject_def)
  have notification:
    "truthy (get_prop (JObj [(''isNotification'', JBool True)]) ''isNotification'')"
    by simp
  have remote:
    "\<not> (get_prop tab1 ''page'' = JStr ''background'' \<and> isBackground broken_bus_env)"
    by (simp add: tab1_def)
  show ?thesis
    using object notification remote
      notification_returns_void [OF object notification remote, of Map.empty "''ping''" "[]"]
    by simp
qed

text \<open>
  This does not extend to the background page addressed from within the background
  context. There the local bypass comes first and does not look at the options: without a
  handler the notifier throws, and with a handler that rejects it returns the rejected
  promise.
\<close>

theorem notification_local_bypass_counterexample:
  "getNotifier background_env Map.empty ''ping'' backgroundTarget []
     = Inl (MessengerError ''No handler registered locally for ping'')
   \<and> getNotifier background_env failing_registry ''ping'' backgroundTarget []
     = Inr (Promise (Rejected (Error ''boom'')))"
  by (simp add: getNotifier_def messenger_def background_env_def page_env_def
        backgroundTarget_def failing_registry_def failing_def)

section \<open>Forwarding\<close>

text \<open>
  C7. An envelope with a target, received in a context without tab addressing, makes the
  listener throw a \<open>MessengerError\<close> synchronously. In a context with tab addressing the
  listener calls the public method of the envelope's type with the envelope's target and
  arguments, and answers with the value of that call under \<open>value\<close>, or with its
  serialized error under \<open>error\<close>.
\<close>

theorem forward_case:
  assumes "isMessengerMessage message" and "truthy (get_prop message ''target'')"
  shows "(\<not> browser_tabs e \<longrightarrow>
            onMessageListener e handlers message sender
              = Inl (MessengerError
                  (''Message '' @ str_of (get_prop message ''type'')
                     @ '' sent to wrong context, it can't be forwarded to ''
                     @ JSON_stringify e (get_prop message ''target''))))
       \<and> (browser_tabs e \<longrightarrow>
            onMessageListener e handlers message sender
              = Inr (Promise (Fulfilled
                  (case async_call (getContentScriptMethod e handlers
                          (str_of (get_prop message ''type'')) (get_prop message ''target'')
                          (elems_of (get_prop message ''args''))) of
                     Fulfilled v \<Rightarrow>
                       JObj [(''value'', v), (''__webext_messenger__'', JBool True)]
                   | Rejected error \<Rightarrow>
                       JObj [(''error'', serializeError e error),
                             (''__webext_messenger__'', JBool True)]))))"
  using assms by (auto simp: onMessageListener_def Let_def respond_def split: settled.splits)

theorem forward_case_witness:
  \<open>isMessengerMessage forward_message
   \<and> truthy (get_prop forward_message ''target'')
   \<and> \<not> browser_tabs content_script_env
   \<and> onMessageListener content_script_env ping_registry forward_message some_sender
       = Inl (MessengerError
           ''Message ping sent to wrong context, it can't be forwarded to {"tabId":1}'')
   \<and> browser_tabs relay_env
   \<and> onMessageListener relay_env Map.empty forward_message some_sender
       = Inr (Promise (Fulfilled
           (JObj [(''value'', JNum 42), (''__webext_messenger__'', JBool True)])))\<close>
proof -
  have envelope: "isMessengerMessage forward_message"
    by (simp add: forward_message_def isMessengerMessage_def isObject_def)
  have target: "truthy (get_prop forward_message ''target'')"
    by (simp add: forward_message_def tab1_def)
  have no_tabs: "\<not> browser_tabs content_script_env"
    by (simp add: content_script_env_def)
  have tabs: "browser_tabs relay_env"
    by (simp add: relay_env_def page_env_def)
  show ?thesis
    using envelope target no_tabs tabs
      forward_case [OF envelope target, of content_script_env ping_registry some_sender]
      forward_case [OF envelope target, of relay_env Map.empty some_sender]
    by (simp add: getContentScriptMethod_def getMethod_def messenger_def
          manageConnection_def manageMessage_def attempt_def pRetry.simps
          isMessengerResponse_def isObject_def Let_def
          content_script_env_def relay_env_def page_env_def print_target_def
          backgroundTarget_def forward_message_def tab1_def reply42_def)
qed

text \<open>
  C10. For an envelope whose target is an object, the forwarded call is \<open>messenger\<close>
  applied to the type, the target and the arguments of the envelope and to empty options:
  the options of the envelope do not occur in it. A call with empty options is managed as a request whose promise is awaited, so
  the forwarded call is one even when the envelope was sent as a notification.
\<close>

theorem forward_drops_options:
  assumes "isMessengerMessage message" and "isObject (get_prop message ''target'')"
    and "browser_tabs e"
  shows "onMessageListener e handlers message sender
           = Inr (Promise (respond e (async_call
               (messenger e handlers (str_of (get_prop message ''type'')) (JObj [])
                  (get_prop message ''target'') (elems_of (get_prop message ''args''))))))
         \<and> manageConnection e type (JObj []) target sendMessage
             = Promise (manageMessage e type target sendMessage)"
proof -
  from assms(2) have "truthy (get_prop message ''target'')"
    by (cases "get_prop message ''target''") (simp_all add: isObject_def)
  with assms(1,3) show ?thesis
    by (simp add: onMessageListener_def Let_def getContentScriptMethod_def getMethod_def
          manageConnection_def)
qed

theorem forward_drops_options_witness:
  \<open>isMessengerMessage forward_message
   \<and> isObject (get_prop forward_message ''target'')
   \<and> browser_tabs page_env
   \<and> get_prop forward_message ''options'' = JObj [(''isNotification'', JBool True)]
   \<and> onMessageListener page_env Map.empty forward_message some_sender
       = Inr (Promise (Fulfilled
           (JObj [(''error'', JObj [(''message'',
                     JStr ''Messenger was not available in the target {"tabId":1} for ping'')]),
                  (''__webext_messenger__'', JBool True)])))\<close>
proof -
  have envelope: "isMessengerMessage forward_message"
    by (simp add: forward_message_def isMessengerMessage_def isObject_def)
  have target: "isObject (get_prop forward_message ''target'')"
    by (simp add: forward_message_def tab1_def isObject_def)
  have tabs: "browser_tabs page_env"
    by (simp add: page_env_def)
  show ?thesis
    using envelope target tabs
      forward_drops_options [OF envelope target tabs, of Map.empty some_sender]
    by (simp add: messenger_def manageConnection_def manageMessage_def attempt_def
          onFailedAttempt_def pRetry.simps respond_def isMessengerResponse_def isObject_def
          errorTargetClosedEarly_host_def errorNonExistingTarget_def startsWith_def Let_def
          page_env_def print_target_def backgroundTarget_def forward_message_def tab1_def)
qed

section \<open>The round trip\<close>

text \<open>
  C1. The sender tags its envelopes with the key \<open>__webextMessenger\<close> and looks for that
  key in a response, while the receiver looks for the key \<open>__webext_messenger__\<close> in an
  envelope and tags its responses with it. So a call to a tab whose content script has
  registered \<open>ping\<close> does not return the handler's value 7: the listener ignores the
  envelope, and the call rejects after the retries. Even the response that the listener
  gives to an envelope tagged with its own key is not recognized by the sender, which
  reports a conflict.
\<close>

theorem roundtrip_tag_mismatch:
  \<open>getMethod caller_env Map.empty ''ping'' tab1 []
     = Inr (Promise (Rejected (MessengerError
         ''Messenger was not available in the target {"tabId":1} for ping'')))
   \<and> \<not> isMessengerMessage (makeMessage ''ping'' [] tab1 (JObj []))
   \<and> onMessageListener content_script_env ping_registry local_message some_sender
     = Inr (Promise (Fulfilled genuine_reply))
   \<and> \<not> isMessengerResponse genuine_reply
   \<and> manageMessage page_env ''ping'' tab1 replying
     = Rejected (MessengerError
         ''Conflict: The message ping was handled by a third-party listener'')\<close>
  by (simp add: getMethod_def messenger_def manageConnection_def manageMessage_def
        attempt_def onFailedAttempt_def pRetry.simps makeMessage_def onMessageListener_def
        respond_def isMessengerMessage_def isMessengerResponse_def isObject_def
        errorTargetClosedEarly_host_def errorNonExistingTarget_def startsWith_def Let_def
        caller_env_def deliver_def content_script_env_def page_env_def print_target_def
        backgroundTarget_def ping_registry_def ping_def tab1_def local_message_def
        genuine_reply_def replying_def)

end
